theory Spec2Isabelle
  imports Main "HOL-Library.Sublist" "HOL-Library.AList"
begin

section \<open>JavaScript strings: split and join\<close>

text \<open>
  Strings are lists of characters.  The separators used by the sources are ASCII
  (\<open>##\<close> and \<open>/\<close>), so splitting a UTF-8 byte list and splitting the UTF-16
  code units of the JavaScript string cut at the same places.

  \<open>String.prototype.split(sep)\<close> scans from the left for the next occurrence of
  \<open>sep\<close>; the empty string splits into one empty segment.  With the empty separator
  the string is cut into its single characters.
\<close>

function split_str :: "string \<Rightarrow> string \<Rightarrow> string list" where
  "split_str sep [] = (if sep = [] then [] else [[]])"
| "split_str sep (c # cs) =
     (if sep = [] then map (\<lambda>x. [x]) (c # cs)
      else if prefix sep (c # cs) then [] # split_str sep (drop (length sep) (c # cs))
      else (case split_str sep cs of
              [] \<Rightarrow> [[c]]
            | seg # segs \<Rightarrow> (c # seg) # segs))"
  by pat_completeness auto
termination
  by (relation "measure (\<lambda>(sep, s). length s)") auto

text \<open>\<open>Array.prototype.join(sep)\<close> on an array of strings.\<close>

fun join_str :: "string \<Rightarrow> string list \<Rightarrow> string" where
  "join_str sep [] = []"
| "join_str sep [x] = x"
| "join_str sep (x # y # ys) = x @ sep @ join_str sep (y # ys)"

text \<open>
  Array destructuring reads a position that may lie beyond the end of the array; the
  variable is then \<open>undefined\<close>, written \<open>None\<close>.
\<close>

definition nth_opt :: "'a list \<Rightarrow> nat \<Rightarrow> 'a option" where
  "nth_opt xs i = (if i < length xs then Some (xs ! i) else None)"

section \<open>Addressing: component ids (ComponentMonitor)\<close>

text \<open>
  \<^verbatim>\<open>interface ComponentId { author; name; path; id; parent: ComponentId | null }\<close>.
  The interface types \<open>name\<close> and \<open>id\<close> as strings, but \<open>parseComponentId\<close> fills
  them from array destructuring, so at run time they can be \<open>undefined\<close>.  The
  field \<open>id\<close> is written \<open>id'\<close>, since \<open>id\<close> is the identity function of HOL.
\<close>

datatype ComponentId = ComponentId
  (author: string)
  (name: "string option")
  (path: string)
  (id': "string option")
  (parent: "ComponentId option")

text \<open>
  \<^verbatim>\<open>
  const parseComponentId = (componentId: string): ComponentId | null => {
    if (!componentId) { return null; }
    const [path, id, , ...ancestors] = componentId.split('##');
    const [author, , name] = path.split('/');
    return { author, name, path, id, parent: parseComponentId(ancestors.join('##')) };
  };
  \<close>
  The third segment of the split is skipped by the destructuring pattern.
  \<open>split\<close> always returns at least one element for a non-empty separator, so \<open>path\<close>
  and \<open>author\<close> are strings.
\<close>

function parseComponentId :: "string \<Rightarrow> ComponentId option" where
  "parseComponentId componentId =
     (if componentId = [] then None
      else
        let segments = split_str ''##'' componentId;
            path = hd segments;
            id = nth_opt segments 1;
            ancestors = drop 3 segments;
            parts = split_str ''/'' path;
            author = hd parts;
            name = nth_opt parts 2
        in Some (ComponentId author name path id
                   (parseComponentId (join_str ''##'' ancestors))))"
  by pat_completeness auto
termination
proof (relation "measure length")
  show "wf (measure (length :: string \<Rightarrow> nat))" by simp
next
  fix componentId :: string and segments ancestors
  assume ne: "componentId \<noteq> []"
    and seg: "segments = split_str ''##'' componentId"
    and anc: "ancestors = drop 3 segments"
  have split_ne: "split_str sep s \<noteq> []" if "sep \<noteq> []" for sep s
    using that by (cases s) (auto split: list.splits)
  have join_split: "join_str sep (split_str sep s) = s" if "sep \<noteq> []" for sep s
    using that
  proof (induction sep s rule: split_str.induct)
    case (1 sep)
    then show ?case by simp
  next
    case (2 sep c cs)
    show ?case
    proof (cases "prefix sep (c # cs)")
      case True
      then obtain rest where rest: "c # cs = sep @ rest"
        by (auto simp: prefix_def)
      have d: "drop (length sep) (c # cs) = rest"
        by (simp add: rest)
      have step: "split_str sep (c # cs) = [] # split_str sep rest"
        using 2(3) True d by simp
      have ih: "join_str sep (split_str sep rest) = rest"
        using 2(1)[OF 2(3) True 2(3)] d by simp
      have "join_str sep ([] # split_str sep rest) = sep @ rest"
        using ih split_ne[OF 2(3), of rest]
        by (cases "split_str sep rest") auto
      then show ?thesis using step rest by simp
    next
      case False
      have ih: "join_str sep (split_str sep cs) = cs"
        using 2(2)[OF 2(3) False 2(3)] .
      show ?thesis
      proof (cases "split_str sep cs")
        case Nil
        then show ?thesis using ih 2(3) False by simp
      next
        case (Cons seg segs)
        then show ?thesis using ih 2(3) False
          by (cases segs) auto
      qed
    qed
  qed
  have drop_le: "length (join_str sep (drop n xs)) \<le> length (join_str sep xs)" for sep n xs
  proof (induction n arbitrary: xs)
    case 0
    then show ?case by simp
  next
    case (Suc n)
    show ?case
    proof (cases xs)
      case Nil
      then show ?thesis by simp
    next
      case (Cons x ys)
      have "length (join_str sep ys) \<le> length (join_str sep (x # ys))"
        by (cases ys) auto
      with Suc[of ys] Cons show ?thesis by simp
    qed
  qed
  have tl_less: "length (join_str ''##'' (tl xs)) < length (join_str ''##'' xs)"
    if "join_str ''##'' xs \<noteq> []" for xs
  proof (cases xs)
    case Nil
    with that show ?thesis by simp
  next
    case (Cons x ys)
    with that show ?thesis by (cases ys) auto
  qed
  have whole: "join_str ''##'' segments = componentId"
    using join_split[of "''##''" componentId] seg by simp
  have "length (join_str ''##'' (drop 2 (tl segments))) \<le> length (join_str ''##'' (tl segments))"
    by (rule drop_le)
  also have "\<dots> < length (join_str ''##'' segments)"
    using tl_less[of segments] whole ne by simp
  finally have "length (join_str ''##'' (drop 3 segments)) < length componentId"
    using whole by (simp add: drop_Suc numeral_3_eq_3 numeral_2_eq_2)
  then show "(join_str ''##'' ancestors, componentId) \<in> measure length"
    using anc by simp
qed

declare parseComponentId.simps [simp del]

text \<open>
  Modelled from the spec: \<open>serialize\<close> for component ids is not among the sources.
  Section 3 of the specification gives the wire form as the string built by joining
  path, instanceId and the full ancestor chain with the reserved delimiter; the
  delimiter is the \<open>##\<close> that \<open>parseComponentId\<close> splits on.  An undefined
  \<open>id\<close> joins as the empty string, as \<open>Array.prototype.join\<close> does.
\<close>

fun ancestor_chain :: "ComponentId \<Rightarrow> string list" where
  "ancestor_chain (ComponentId a n p i par) =
     p # (case i of None \<Rightarrow> [] | Some x \<Rightarrow> x)
       # (case par of None \<Rightarrow> [] | Some q \<Rightarrow> ancestor_chain q)"

definition serializeComponentId :: "ComponentId \<Rightarrow> string" where
  "serializeComponentId v = join_str ''##'' (ancestor_chain v)"

text \<open>
  The author and the name of an id are not written to the wire; \<open>parseComponentId\<close>
  recomputes them from the path.  An id is \<open>derived\<close> when its own author and name
  are the ones the path gives, its id is a string, and neither contains the
  delimiter character.
\<close>

definition derived :: "ComponentId \<Rightarrow> bool" where
  "derived v \<longleftrightarrow>
     CHR ''#'' \<notin> set (path v) \<and>
     (case id' v of None \<Rightarrow> False | Some i \<Rightarrow> CHR ''#'' \<notin> set i) \<and>
     author v = hd (split_str ''/'' (path v)) \<and>
     name v = nth_opt (split_str ''/'' (path v)) 2"

text \<open>
  The layout that the destructuring pattern of \<open>parseComponentId\<close> reads back:
  path, id, one further segment that the pattern skips, and then the same layout for
  the parent.  It is read off the parser, to state which strings the parser inverts;
  it is not the wire form of the specification, which has no such segment.
\<close>

fun slotted_chain :: "string \<Rightarrow> ComponentId \<Rightarrow> string list" where
  "slotted_chain slot (ComponentId a n p i par) =
     p # (case i of None \<Rightarrow> [] | Some x \<Rightarrow> x)
       # (case par of None \<Rightarrow> [] | Some q \<Rightarrow> slot # slotted_chain slot q)"

fun all_derived :: "ComponentId \<Rightarrow> bool" where
  "all_derived (ComponentId a n p i par) \<longleftrightarrow>
     derived (ComponentId a n p i par) \<and>
     (case par of None \<Rightarrow> True | Some q \<Rightarrow> all_derived q)"

section \<open>Wire messages (common/src/types/messaging.ts, container/src/types.ts)\<close>

text \<open>
  \<^verbatim>\<open>type EventType = 'component.callbackInvocation' | 'component.callbackResponse'
    | 'component.domCallback' | 'component.render' | 'component.update'\<close>
  (the same five literals in both files).
\<close>

datatype EventType =
    ComponentCallbackInvocationType
  | ComponentCallbackResponseType
  | ComponentDomCallbackType
  | ComponentRenderType
  | ComponentUpdateType

fun EventType_literal :: "EventType \<Rightarrow> string" where
  "EventType_literal ComponentCallbackInvocationType = ''component.callbackInvocation''"
| "EventType_literal ComponentCallbackResponseType = ''component.callbackResponse''"
| "EventType_literal ComponentDomCallbackType = ''component.domCallback''"
| "EventType_literal ComponentRenderType = ''component.render''"
| "EventType_literal ComponentUpdateType = ''component.update''"

text \<open>
  An interface declaration is the table of its properties: the name of each and its
  declared type.  Types declared elsewhere are kept by name.
\<close>

datatype ts_type =
    TString
  | TNull
  | TUnion ts_type ts_type
  | TLiteral EventType
  | TRef string

type_synonym interface = "(string \<times> ts_type) list"

text \<open>
  container/src/types.ts, lines 108--115:
  \<^verbatim>\<open>
  export interface ComponentCallbackInvocation extends PostMessageParams {
    args: SerializedArgs; method: string; originator: string;
    requestId: string; targetId: string; type: ComponentCallbackInvocationType; }
  \<close>
\<close>

definition container_ComponentCallbackInvocation :: interface where
  "container_ComponentCallbackInvocation =
     [(''args'', TRef ''SerializedArgs''),
      (''method'', TString),
      (''originator'', TString),
      (''requestId'', TString),
      (''targetId'', TString),
      (''type'', TLiteral ComponentCallbackInvocationType)]"

text \<open>
  common/src/types/messaging.ts, lines 27--34:
  \<^verbatim>\<open>
  export interface ComponentCallbackInvocation extends PostMessageParams {
    args: SerializedArgs; method: string; containerId: string;
    requestId: string; targetId: string | null; type: ComponentCallbackInvocationType; }
  \<close>
\<close>

definition common_ComponentCallbackInvocation :: interface where
  "common_ComponentCallbackInvocation =
     [(''args'', TRef ''SerializedArgs''),
      (''method'', TString),
      (''containerId'', TString),
      (''requestId'', TString),
      (''targetId'', TUnion TString TNull),
      (''type'', TLiteral ComponentCallbackInvocationType)]"

definition property_names :: "interface \<Rightarrow> string set" where
  "property_names i = set (map fst i)"

text \<open>
  The payload unions of messaging.ts.  Each interface is one constructor, carrying its
  properties in the order of the declaration (the literal \<open>type\<close> property is the
  constructor itself).  The types \<open>SerializedArgs\<close>, \<open>SerializedNode\<close>,
  \<open>ComponentChildMetadata\<close> and \<open>ComponentTrust\<close> are declared in files that are not
  among the sources, and \<open>props\<close> is \<open>any\<close>; they are type parameters.
  \<^verbatim>\<open>
  // payloads sent by the application to a container
  export type ApplicationPayload = ComponentUpdate | DomCallback;
  // payloads sent by a container to the application
  export type ContainerPayload =
    | ComponentCallbackInvocation | ComponentCallbackResponse | ComponentRender;
  export type MessagePayload = ApplicationPayload | ContainerPayload;
  \<close>
\<close>

datatype ('args, 'node, 'child, 'trust, 'props) MessagePayload =
    ComponentCallbackInvocation 'args string string string "string option"
      \<comment> \<open>args, method, containerId, requestId, targetId\<close>
  | ComponentCallbackResponse string string string string
      \<comment> \<open>containerId, requestId, result, targetId\<close>
  | ComponentRender "'child list" string 'node 'trust
      \<comment> \<open>childComponents, containerId, node, trust\<close>
  | ComponentUpdate 'props string
      \<comment> \<open>props, componentId\<close>
  | DomCallback 'args "string option" string
      \<comment> \<open>args, componentId?, method\<close>

fun payload_type :: "('args, 'node, 'child, 'trust, 'props) MessagePayload \<Rightarrow> EventType" where
  "payload_type (ComponentCallbackInvocation _ _ _ _ _) = ComponentCallbackInvocationType"
| "payload_type (ComponentCallbackResponse _ _ _ _) = ComponentCallbackResponseType"
| "payload_type (ComponentRender _ _ _ _) = ComponentRenderType"
| "payload_type (ComponentUpdate _ _) = ComponentUpdateType"
| "payload_type (DomCallback _ _ _) = ComponentDomCallbackType"

fun is_ApplicationPayload :: "('args, 'node, 'child, 'trust, 'props) MessagePayload \<Rightarrow> bool" where
  "is_ApplicationPayload (ComponentUpdate _ _) = True"
| "is_ApplicationPayload (DomCallback _ _ _) = True"
| "is_ApplicationPayload _ = False"

fun is_ContainerPayload :: "('args, 'node, 'child, 'trust, 'props) MessagePayload \<Rightarrow> bool" where
  "is_ContainerPayload (ComponentCallbackInvocation _ _ _ _ _) = True"
| "is_ContainerPayload (ComponentCallbackResponse _ _ _ _) = True"
| "is_ContainerPayload (ComponentRender _ _ _ _) = True"
| "is_ContainerPayload _ = False"

text \<open>
  Modelled from the spec: the container's event handler is not among the sources.
  Section 4.4 of the specification: on a dom-callback message \<open>{method, args}\<close> the
  container invokes a locally registered DOM handler, from a namespace distinct from
  the component-level callbacks, and does not route the call to another container.
  (\<open>Props\<close> in container/src/types.ts declares the two namespaces as the separate
  properties \<open>__domcallbacks\<close> and \<open>__componentcallbacks\<close>.)  A handler is a function
  from the arguments to its result; the value returned is the result of the local
  call, if a handler of that name is registered, and the list of messages posted.
\<close>

record ('args, 'res) callback_registry =
  domCallbacks :: "string \<rightharpoonup> ('args \<Rightarrow> 'res)"
  componentCallbacks :: "string \<rightharpoonup> ('args \<Rightarrow> 'res)"

fun handle_domCallback ::
  "('args, 'res) callback_registry \<Rightarrow> ('args, 'node, 'child, 'trust, 'props) MessagePayload
     \<Rightarrow> 'res option \<times> ('args, 'node, 'child, 'trust, 'props) MessagePayload list" where
  "handle_domCallback reg (DomCallback args componentId method) =
     (case domCallbacks reg method of
        None \<Rightarrow> (None, [])
      | Some handler \<Rightarrow> (Some (handler args), []))"
| "handle_domCallback reg _ = (None, [])"

section \<open>Request correlation (container/src/types.ts)\<close>

text \<open>A JavaScript \<open>Error\<close> with its message.\<close>

datatype js_error = Error (message: string)

text \<open>
  \<^verbatim>\<open>
  export interface CallbackRequest {
    promise: Promise<any>; rejecter?: (reason: any) => void; resolver?: (value: any) => void; }
  export type RequestMap = { [key: string]: CallbackRequest };
  \<close>
  A promise is named by a number; \<open>rejecter\<close> and \<open>resolver\<close> name the promise
  they settle.  The declaration marks the two functions optional; the pending entry of
  the specification (\<open>{requestId, resolve, reject}\<close>) has both, and so has the record.
  The request map keeps the insertion order of its keys.
\<close>

record CallbackRequest =
  promise :: nat
  rejecter :: nat
  resolver :: nat

type_synonym RequestMap = "(string \<times> CallbackRequest) list"

text \<open>A call of a resolver with a value, or of a rejecter with an error.\<close>

datatype 'v settle = Resolve 'v | Reject js_error

text \<open>
  The state of one execution context, as far as the correlator goes: its request map
  and the calls made so far to resolvers and rejecters, each with the promise settled.
\<close>

record 'v correlator =
  requests :: RequestMap
  calls :: "(nat \<times> 'v settle) list"

text \<open>
  Modelled from the spec: the handler of callback-response messages is not among the
  sources (only the declarations of \<open>CallbackRequest\<close>, \<open>RequestMap\<close> and of the
  message are).  Section 4.3 of the specification: on receipt of a callback-response
  \<open>{requestId, result}\<close> the pending entry is looked up by \<open>requestId\<close>; \<open>result\<close> is a
  transport-encoded \<open>{value, error}\<close> pair; on present error the entry is rejected with
  a reconstructed error, else resolved with the value; the entry is removed; a response
  for an already-settled or unknown \<open>requestId\<close> is ignored.  The transport decoding
  (\<open>JSON.parse\<close> of the \<open>result\<close> string) is the parameter \<open>decode\<close>.
\<close>

definition handle_callbackResponse ::
  "(string \<Rightarrow> 'v \<times> string option) \<Rightarrow> 'v correlator \<Rightarrow> string \<Rightarrow> string \<Rightarrow> 'v correlator" where
  "handle_callbackResponse decode ctx requestId result =
     (case map_of (requests ctx) requestId of
        None \<Rightarrow> ctx
      | Some request \<Rightarrow>
          (case decode result of
             (value, Some err) \<Rightarrow>
               ctx\<lparr>requests := AList.delete requestId (requests ctx),
                   calls := calls ctx @ [(rejecter request, Reject (Error err))]\<rparr>
           | (value, None) \<Rightarrow>
               ctx\<lparr>requests := AList.delete requestId (requests ctx),
                   calls := calls ctx @ [(resolver request, Resolve value)]\<rparr>))"

text \<open>
  Modelled from the spec: unmounting is not among the sources.  Section 4.3: unmounting
  a component rejects all of its outstanding outbound requests immediately.  The
  specification does not name the error; it is the parameter \<open>reason\<close>.
\<close>

definition unmount :: "js_error \<Rightarrow> 'v correlator \<Rightarrow> 'v correlator" where
  "unmount reason ctx =
     ctx\<lparr>requests := [],
         calls := calls ctx @
           map (\<lambda>(requestId, request). (rejecter request, Reject reason)) (requests ctx)\<rparr>"

section \<open>The useComponents hook\<close>

text \<open>
  \<open>components\<close> is \<^verbatim>\<open>{ [key: string]: any }\<close>, so the property \<open>renderCount\<close> of an
  entry can hold any JavaScript value, and \<^verbatim>\<open>renderCount + 1 || 0\<close> is evaluated by the
  rules of the language (ECMAScript, the operators \<open>+\<close> and \<open>||\<close>).

  Numbers are IEEE doubles.  The numbers of the model are the integer-valued doubles,
  \<open>NaN\<close> and the two infinities; \<open>Integer n\<close> is the double of value \<open>n\<close> (every
  integer from \<open>-2^53\<close> to \<open>2^53\<close> is one, and the two zeros are not told apart: they
  add and test alike).  Doubles with a fractional part are left out.
\<close>

datatype js_number = Integer int | NaN | PosInfinity | NegInfinity

datatype js_primitive =
    JSUndefined
  | JSNull
  | JSBoolean bool
  | JSNumber js_number
  | JSString string
  | JSBigInt int
  | JSSymbol

text \<open>What the evaluation of an expression can throw.\<close>

datatype js_exception = TypeError | ThrownByConversion

text \<open>
  A value is a primitive or an object.  All that \<open>+\<close> sees of an object is the outcome
  of its conversion \<open>ToPrimitive\<close> (which calls the object's own \<open>valueOf\<close> or
  \<open>toString\<close>): a primitive, or an exception.
\<close>

datatype js_value = Primitive js_primitive | JSObject "js_exception + js_primitive"

fun to_primitive :: "js_value \<Rightarrow> js_exception + js_primitive" where
  "to_primitive (Primitive p) = Inr p"
| "to_primitive (JSObject outcome) = outcome"

text \<open>
  The double nearest to \<open>n + 1\<close> for an integer-valued double \<open>n\<close>, ties to the even
  significand.  Up to \<open>2^53\<close> in magnitude the sum is exact.  From \<open>2^53\<close> on the
  doubles are the even integers and \<open>n + 1\<close> lies halfway between \<open>n\<close> and \<open>n + 2\<close>;
  from \<open>2^54\<close> on they are four or more apart and \<open>n\<close> is the nearest.
\<close>

definition double_plus_one :: "int \<Rightarrow> int" where
  "double_plus_one n =
     (if - (2 ^ 53) \<le> n \<and> n < 2 ^ 53 then n + 1
      else if - (2 ^ 54) < n \<and> n < 2 ^ 54 then (if n mod 4 = 0 then n else n + 2)
      else n)"

fun number_plus_one :: "js_number \<Rightarrow> js_number" where
  "number_plus_one (Integer n) = Integer (double_plus_one n)"
| "number_plus_one NaN = NaN"
| "number_plus_one PosInfinity = PosInfinity"
| "number_plus_one NegInfinity = NegInfinity"

text \<open>
  \<^verbatim>\<open>p + 1\<close> for a primitive \<open>p\<close>: a string is concatenated with \<open>"1"\<close>; otherwise \<open>p\<close>
  is converted by \<open>ToNumeric\<close> (\<open>undefined\<close> to \<open>NaN\<close>, \<open>null\<close> to 0, \<open>true\<close> to 1,
  \<open>false\<close> to 0; a symbol throws) and the numbers are added; a bigint cannot be added
  to the number 1.
\<close>

fun primitive_plus_one :: "js_primitive \<Rightarrow> js_exception + js_primitive" where
  "primitive_plus_one (JSString s) = Inr (JSString (s @ ''1''))"
| "primitive_plus_one JSUndefined = Inr (JSNumber NaN)"
| "primitive_plus_one JSNull = Inr (JSNumber (number_plus_one (Integer 0)))"
| "primitive_plus_one (JSBoolean b) = Inr (JSNumber (number_plus_one (Integer (if b then 1 else 0))))"
| "primitive_plus_one (JSNumber n) = Inr (JSNumber (number_plus_one n))"
| "primitive_plus_one (JSBigInt n) = Inl TypeError"
| "primitive_plus_one JSSymbol = Inl TypeError"

text \<open>\<open>ToBoolean\<close>, which decides \<open>||\<close>.\<close>

fun truthy :: "js_primitive \<Rightarrow> bool" where
  "truthy JSUndefined = False"
| "truthy JSNull = False"
| "truthy (JSBoolean b) = b"
| "truthy (JSNumber (Integer n)) = (n \<noteq> 0)"
| "truthy (JSNumber NaN) = False"
| "truthy (JSNumber PosInfinity) = True"
| "truthy (JSNumber NegInfinity) = True"
| "truthy (JSString s) = (s \<noteq> [])"
| "truthy (JSBigInt n) = (n \<noteq> 0)"
| "truthy JSSymbol = True"

text \<open>
  \<^verbatim>\<open>x + 1 || 0\<close> parses as \<^verbatim>\<open>(x + 1) || 0\<close>: the sum if it is truthy, else the
  number 0.
\<close>

definition plus_one_or_zero :: "js_value \<Rightarrow> js_exception + js_value" where
  "plus_one_or_zero x =
     (case to_primitive x of
        Inl e \<Rightarrow> Inl e
      | Inr p \<Rightarrow>
          (case primitive_plus_one p of
             Inl e \<Rightarrow> Inl e
           | Inr r \<Rightarrow> Inr (Primitive (if truthy r then r else JSNumber (Integer 0)))))"

text \<open>
  An entry of \<open>components\<close> is an object (both setters of the hook store object
  literals).  Its property \<open>renderCount\<close> is kept apart from its other own
  properties; \<open>JSUndefined\<close> also stands for the property being absent, which the hook
  cannot tell from \<open>undefined\<close>: it reads the property and always writes it.
\<close>

record 'a component =
  props :: "string \<rightharpoonup> 'a"
  renderCount :: js_value

text \<open>The object spread \<^verbatim>\<open>{...x}\<close> of an entry that may be \<open>undefined\<close>.\<close>

definition spread_props :: "'a component option \<Rightarrow> (string \<rightharpoonup> 'a)" where
  "spread_props entry = (case entry of None \<Rightarrow> Map.empty | Some e \<Rightarrow> props e)"

text \<open>The four \<open>useState\<close> cells of the hook.\<close>

record 'a hook_state =
  components :: "string \<rightharpoonup> 'a component"
  isValidRootComponentPath :: bool
  error :: "string option"
  rootComponentSource :: "string option"

text \<open>
  \<^verbatim>\<open>
  const addComponent = useCallback((componentId: string, component: any) => {
    setComponents((currentComponents) => ({
      ...currentComponents,
      [componentId]: { ...currentComponents[componentId], ...component, renderCount: 1 },
    }));
  }, []);
  \<close>
\<close>

definition addComponent :: "string \<Rightarrow> 'a component \<Rightarrow> 'a hook_state \<Rightarrow> 'a hook_state" where
  "addComponent componentId component st =
     st\<lparr>components := (components st)(componentId \<mapsto>
          \<lparr>props = spread_props (components st componentId) ++ props component,
           renderCount = Primitive (JSNumber (Integer 1))\<rparr>)\<rparr>"

text \<open>\<^verbatim>\<open>return components?.[componentId]?.renderCount;\<close>\<close>

definition getComponentRenderCount :: "'a hook_state \<Rightarrow> string \<Rightarrow> js_value" where
  "getComponentRenderCount st componentId =
     (case components st componentId of
        None \<Rightarrow> Primitive JSUndefined
      | Some e \<Rightarrow> renderCount e)"

text \<open>
  \<^verbatim>\<open>
  hooks.componentRendered = (componentId: string) => {
    config?.hooks?.componentRendered?.(componentId);
    setComponents((currentComponents) => ({
      ...currentComponents,
      [componentId]: {
        ...currentComponents[componentId],
        renderCount: currentComponents?.[componentId]?.renderCount + 1 || 0,
      },
    }));
  };
  \<close>
  The call of the configured hook leaves the state of \<open>useComponents\<close> alone.  When
  the sum throws, the updater throws and no new state is stored.
\<close>

definition componentRendered ::
  "string \<Rightarrow> 'a hook_state \<Rightarrow> js_exception + 'a hook_state" where
  "componentRendered componentId st =
     (case plus_one_or_zero (getComponentRenderCount st componentId) of
        Inl e \<Rightarrow> Inl e
      | Inr count \<Rightarrow>
          Inr (st\<lparr>components := (components st)(componentId \<mapsto>
                 \<lparr>props = spread_props (components st componentId),
                  renderCount = count\<rparr>)\<rparr>))"

text \<open>
  The parameters of the hook that the compile effect reads.  \<open>UseComponentsParams\<close> is
  declared in a file that is not among the sources; \<open>compiler\<close> is the worker object
  (named by a number) or absent, \<open>bosLoaderUrl\<close> is \<^verbatim>\<open>config?.flags?.bosLoaderUrl\<close>.
\<close>

record use_components_params =
  compiler :: "nat option"
  rootComponentPath :: string
  bosLoaderUrl :: "string option"

text \<open>
  The message of the compiler, \<open>ComponentCompilerResponse\<close>, is declared in the compiler
  package, which is not among the sources; these are the properties the handler reads.
  The handler binds \<open>error\<close> to the name \<open>loadError\<close>; the record uses that name.
\<close>

record 'm ComponentCompilerResponse =
  componentId :: string
  componentSource :: string
  containerStyles :: "string option"
  loadError :: "js_error option"
  importedModules :: 'm

text \<open>The values the handler stores in an entry.\<close>

datatype 'm stored = StringValue string | ModuleImports 'm

text \<open>
  What the hook does to the outside: messages to the compiler and callbacks.
  \<open>ContainerSourceCompiled\<close> is the call \<^verbatim>\<open>hooks?.containerSourceCompiled?.(data)\<close>, which
  does nothing when no such hook is configured.
\<close>

datatype 'm effect =
    PostMessage_execute string
      \<comment> \<open>\<^verbatim>\<open>compiler.postMessage({ action: 'execute', componentId })\<close>\<close>
  | AppendStylesheet string
  | ContainerSourceCompiled "'m ComponentCompilerResponse"

text \<open>
  \<open>compiler.onmessage\<close>, lines 72--106.  The handler is a closure: \<open>components\<close> and
  \<open>rootComponentSource\<close> are the values of the render in which the effect installed it
  (\<open>captured\<close>), while the state setters act on the current state \<open>st\<close>.
  \<^verbatim>\<open>
  if (loadError) { setError(loadError.message); return; }
  if (containerStyles) { appendStylesheet(containerStyles); }
  hooks?.containerSourceCompiled?.(data);
  const component = { ...components[componentId], componentId, componentSource,
                      moduleImports: importedModules };
  if (!rootComponentSource && componentId === rootComponentPath) {
    setRootComponentSource(componentId);
  }
  addComponent(componentId, component);
  \<close>
\<close>

definition onmessage ::
  "use_components_params \<Rightarrow> 'm stored hook_state \<Rightarrow> 'm ComponentCompilerResponse
     \<Rightarrow> 'm stored hook_state \<Rightarrow> 'm stored hook_state \<times> 'm effect list" where
  "onmessage params captured data st =
     (case loadError data of
        Some e \<Rightarrow> (st\<lparr>error := Some (message e)\<rparr>, [])
      | None \<Rightarrow>
          let styles = (case containerStyles data of
                          None \<Rightarrow> []
                        | Some css \<Rightarrow> if css = [] then [] else [AppendStylesheet css]);
              component =
                \<lparr>props = spread_props (components captured (componentId data))
                           ++ [''componentId'' \<mapsto> StringValue (componentId data),
                               ''componentSource'' \<mapsto> StringValue (componentSource data),
                               ''moduleImports'' \<mapsto> ModuleImports (importedModules data)],
                 renderCount = (case components captured (componentId data) of
                                  None \<Rightarrow> Primitive JSUndefined
                                | Some e \<Rightarrow> renderCount e)\<rparr>;
              st1 = (if (case rootComponentSource captured of None \<Rightarrow> True | Some src \<Rightarrow> src = [])
                        \<and> componentId data = rootComponentPath params
                     then st\<lparr>rootComponentSource := Some (componentId data)\<rparr>
                     else st)
          in (addComponent (componentId data) component st1,
              styles @ [ContainerSourceCompiled data]))"

text \<open>
  The compile effect, lines 67--119:
  \<^verbatim>\<open>
  useEffect(() => {
    if (!rootComponentPath || !isValidRootComponentPath || !compiler) { return; }
    compiler.onmessage = ...;
    compiler.postMessage({ action: 'execute', componentId: rootComponentPath });
  }, [compiler, rootComponentPath, rootComponentSource, error,
      isValidRootComponentPath, config?.flags?.bosLoaderUrl]);
  \<close>
  \<open>compile_effect\<close> is what the body posts; \<open>effect_deps\<close> is the dependency array.
\<close>

definition compile_effect :: "use_components_params \<Rightarrow> 'a hook_state \<Rightarrow> 'm effect list" where
  "compile_effect params st =
     (if rootComponentPath params = [] \<or> \<not> isValidRootComponentPath st \<or> compiler params = None
      then []
      else [PostMessage_execute (rootComponentPath params)])"

definition effect_deps ::
  "use_components_params \<Rightarrow> 'a hook_state
     \<Rightarrow> nat option \<times> string \<times> string option \<times> string option \<times> bool \<times> string option" where
  "effect_deps params st =
     (compiler params, rootComponentPath params, rootComponentSource st, error st,
      isValidRootComponentPath st, bosLoaderUrl params)"

text \<open>
  React runs an effect again after a render in which an element of its dependency
  array differs from the one of the effect's last run.  The effect has run for the
  state \<open>before\<close>; \<open>rerun_effect\<close> is what it posts once the state has become \<open>after\<close>.
\<close>

definition rerun_effect ::
  "use_components_params \<Rightarrow> 'a hook_state \<Rightarrow> 'a hook_state \<Rightarrow> 'm effect list" where
  "rerun_effect params before after =
     (if effect_deps params before = effect_deps params after then []
      else compile_effect params after)"

text \<open>
  One message of the compiler, from its arrival to the end of the render it causes:
  the handler installed by the last run of the effect (with the state \<open>captured\<close> then)
  updates the current state \<open>st\<close>, and the effect runs again if its dependencies
  changed.
\<close>

definition compiler_response ::
  "use_components_params \<Rightarrow> 'm stored hook_state \<Rightarrow> 'm ComponentCompilerResponse
     \<Rightarrow> 'm stored hook_state \<Rightarrow> 'm stored hook_state \<times> 'm effect list" where
  "compiler_response params captured data st =
     (case onmessage params captured data st of
        (st', effects) \<Rightarrow> (st', effects @ rerun_effect params st st'))"

section \<open>SocialDb.get\<close>

text \<open>
  \<open>blockId\<close> is a block height (a number) or a block hash (a string); it is falsy
  when it is \<open>undefined\<close>, the number \<open>0\<close> or the empty string.
\<close>

datatype block_id = BlockHeight int | BlockHash string

fun truthy_block_id :: "block_id option \<Rightarrow> bool" where
  "truthy_block_id None = False"
| "truthy_block_id (Some (BlockHeight n)) = (n \<noteq> 0)"
| "truthy_block_id (Some (BlockHash h)) = (h \<noteq> [])"

text \<open>The request handed to \<open>provider.query\<close>, built by \<open>rpcFetch\<close>.\<close>

record rpc_request =
  account_id :: string
  args_base64 :: string
  block_id :: "block_id option"
  request_finality :: "string option"
  method_name :: string
  request_type :: string

text \<open>
  \<open>rpcFetch\<close>, lines 373--437, without its debug logging.  \<open>encodeJsonRpcArgs\<close> is
  imported from a file that is not among the sources and is a parameter.  \<open>query\<close>
  stands for \<open>provider.query\<close> followed by \<open>parseJsonRpcResponse\<close>; \<open>None\<close> is either
  of them throwing, which \<open>rpcFetch\<close> catches and rethrows as its own error.  The
  result comes with the list of requests issued to the provider.
\<close>

definition rpcFetch ::
  "('d \<Rightarrow> string) \<Rightarrow> (rpc_request \<Rightarrow> 'r option) \<Rightarrow> string
     \<Rightarrow> block_id option \<Rightarrow> string option \<Rightarrow> 'd \<Rightarrow> string option \<Rightarrow> string
     \<Rightarrow> (js_error + 'r) \<times> rpc_request list" where
  "rpcFetch encodeJsonRpcArgs query this_contractId blockId contractId data finality methodName =
     (let finality' = (case finality of None \<Rightarrow> ''optimistic'' | Some f \<Rightarrow> f);
          request =
            \<lparr>account_id = (case contractId of None \<Rightarrow> this_contractId | Some c \<Rightarrow> c),
             args_base64 = encodeJsonRpcArgs data,
             block_id = blockId,
             request_finality = (if truthy_block_id blockId then None else Some finality'),
             method_name = methodName,
             request_type = ''call_function''\<rparr>
      in case query request of
           Some responseData \<Rightarrow> (Inr responseData, [request])
         | None \<Rightarrow> (Inl (Error ''Failed to fetch data from RPC.''), [request]))"

text \<open>
  \<open>SocialGetParams\<close> is declared in a file that is not among the sources; these are
  the properties \<open>get\<close> destructures.  \<open>None\<close> is a property left out.
\<close>

record 'o SocialGetParams =
  blockId :: "block_id option"
  key :: "string option"
  keys :: "string list option"
  finality :: "string option"
  options :: 'o

text \<open>
  \<^verbatim>\<open>
  const normalizedKeys = ((key ? [key] : keys) ?? []).filter((value) => value);
  \<close>
\<close>

definition normalizedKeys :: "'o SocialGetParams \<Rightarrow> string list" where
  "normalizedKeys params =
     filter (\<lambda>value. value \<noteq> [])
       (case (case key params of
                None \<Rightarrow> keys params
              | Some k \<Rightarrow> if k \<noteq> [] then Some [k] else keys params) of
          None \<Rightarrow> []
        | Some ks \<Rightarrow> ks)"

text \<open>
  \<open>SocialDb.get\<close>, lines 119--150.  The function is \<open>async\<close>: a \<open>throw\<close> is the
  rejection of the returned promise, \<open>Inl\<close>.  \<open>finality\<close> defaults to
  \<open>'optimistic'\<close> when it is left out.
  \<^verbatim>\<open>
  if (normalizedKeys.length === 0) { throw new Error('Must pass a valid ...'); }
  if (!blockId && !finality) { throw new Error('Must pass either `blockId` or `finality`'); }
  const response = await this.rpcFetch({ data: { keys: normalizedKeys, options },
    methodName: 'get', ...(blockId ? { blockId } : { finality }) });
  return response;
  \<close>
\<close>

definition SocialDb_get ::
  "(string list \<times> 'o \<Rightarrow> string) \<Rightarrow> (rpc_request \<Rightarrow> 'r option) \<Rightarrow> string
     \<Rightarrow> 'o SocialGetParams \<Rightarrow> (js_error + 'r) \<times> rpc_request list" where
  "SocialDb_get encodeJsonRpcArgs query this_contractId params =
     (let finality' = (case finality params of None \<Rightarrow> ''optimistic'' | Some f \<Rightarrow> f)
      in if normalizedKeys params = [] then
           (Inl (Error ''Must pass a valid `key` or `keys` parameter with non empty string(s).''), [])
         else if \<not> truthy_block_id (blockId params) \<and> finality' = [] then
           (Inl (Error ''Must pass either `blockId` or `finality`''), [])
         else if truthy_block_id (blockId params) then
           rpcFetch encodeJsonRpcArgs query this_contractId (blockId params) None
             (normalizedKeys params, options params) None ''get''
         else
           rpcFetch encodeJsonRpcArgs query this_contractId None None
             (normalizedKeys params, options params) (Some finality') ''get'')"

section \<open>SandboxWebEngine: fetchLocalComponents\<close>

text \<open>
  A component entry of the loader's JSON is an object with string properties (the
  loader serves \<open>code\<close> as a string); the components object lists its entries in key
  order, each key once.
\<close>

type_synonym local_component = "string \<rightharpoonup> string"

type_synonym local_components = "(string \<times> local_component) list"

datatype LocalFetchStatus = LOADING | SUCCESS | ERROR

text \<open>
  What \<^verbatim>\<open>await fetch(url)\<close> and \<^verbatim>\<open>await response.json()\<close> give: a rejection of either,
  or the parsed data, whose property \<open>components\<close> may be missing.
\<close>

datatype fetched = FetchRejected | FetchedJson "local_components option"

text \<open>\<open>localComponents\<close> is \<open>null\<close> while loading.\<close>

record sandbox_state =
  localComponents :: "local_components option"
  localFetchStatus :: "LocalFetchStatus option"

text \<open>
  \<^verbatim>\<open>
  data.components[key].component = data.components[key].code + '\n';
  delete data.components[key].code;
  \<close>
  A missing \<open>code\<close> is \<open>undefined\<close>, and \<^verbatim>\<open>undefined + '\n'\<close> is the string
  \<open>undefined\<close> with the newline.
\<close>

definition code_to_component :: "local_component \<Rightarrow> local_component" where
  "code_to_component entry =
     (entry(''component'' \<mapsto>
        (case entry ''code'' of None \<Rightarrow> ''undefined'' | Some code \<Rightarrow> code) @ [CHR 0x0A]))
       (''code'' := None)"

text \<open>
  \<open>fetchLocalComponents\<close>, lines 72--95.  \<^verbatim>\<open>Object.keys(data.components).forEach\<close>
  visits each entry once and its body touches that entry only; with \<open>components\<close>
  missing, \<open>Object.keys\<close> throws and the \<open>catch\<close> branch runs.
  \<^verbatim>\<open>
  setLocalFetchStatus(LocalFetchStatus.LOADING);
  try { ...; setLocalComponents(data.components); setLocalFetchStatus(LocalFetchStatus.SUCCESS); }
  catch (error) { ...; setLocalComponents({}); setLocalFetchStatus(LocalFetchStatus.ERROR); }
  \<close>
\<close>

definition fetchLocalComponents ::
  "(string \<Rightarrow> fetched) \<Rightarrow> string \<Rightarrow> sandbox_state \<Rightarrow> sandbox_state" where
  "fetchLocalComponents fetch url st =
     (case fetch url of
        FetchedJson (Some data_components) \<Rightarrow>
          st\<lparr>localComponents :=
                Some (map (\<lambda>(key, entry). (key, code_to_component entry)) data_components),
             localFetchStatus := Some SUCCESS\<rparr>
      | _ \<Rightarrow> st\<lparr>localComponents := Some [], localFetchStatus := Some ERROR\<rparr>)"

section \<open>Properties of the addressing scheme\<close>

lemma split_str_append:
  "CHR ''#'' \<notin> set a \<Longrightarrow> split_str ''##'' (a @ ''##'' @ b) = a # split_str ''##'' b"
  by (induction a) (auto simp: prefix_def)

lemma split_str_plain:
  "CHR ''#'' \<notin> set a \<Longrightarrow> split_str ''##'' a = [a]"
  by (induction a) (auto simp: prefix_def)

lemma ancestor_chain_unfold:
  "ancestor_chain v =
     path v # (case id' v of None \<Rightarrow> [] | Some x \<Rightarrow> x)
       # (case parent v of None \<Rightarrow> [] | Some q \<Rightarrow> ancestor_chain q)"
  by (cases v) simp

lemma serialize_root:
  "parent v = None \<Longrightarrow> id' v = Some i \<Longrightarrow> serializeComponentId v = path v @ ''##'' @ i"
  by (simp add: serializeComponentId_def ancestor_chain_unfold)

lemma serialize_length: "2 \<le> length (serializeComponentId v)"
  by (simp add: serializeComponentId_def ancestor_chain_unfold[of v])

lemma parse_empty: "parseComponentId [] = None"
  by (subst parseComponentId.simps) simp

lemma parse_nonempty:
  "s \<noteq> [] \<Longrightarrow> parseComponentId s =
     Some (ComponentId (hd (split_str ''/'' (hd (split_str ''##'' s))))
            (nth_opt (split_str ''/'' (hd (split_str ''##'' s))) 2)
            (hd (split_str ''##'' s))
            (nth_opt (split_str ''##'' s) 1)
            (parseComponentId (join_str ''##'' (drop 3 (split_str ''##'' s)))))"
  by (subst parseComponentId.simps) (simp add: Let_def)

lemma no_id_serializes_to_x: "serializeComponentId v \<noteq> ''x''"
  using serialize_length[of v] by auto

lemma split_join_plain:
  "xs \<noteq> [] \<Longrightarrow> \<forall>x\<in>set xs. CHR ''#'' \<notin> set x \<Longrightarrow>
   split_str ''##'' (join_str ''##'' xs) = xs"
proof (induction xs)
  case Nil
  then show ?case by simp
next
  case (Cons x xs)
  show ?case
  proof (cases xs)
    case Nil
    then show ?thesis using Cons.prems by (simp add: split_str_plain)
  next
    case (Cons y ys)
    have "split_str ''##'' (join_str ''##'' xs) = xs"
      using Cons.IH Cons.prems Cons by simp
    then show ?thesis
      using Cons Cons.prems split_str_append[of x "join_str ''##'' xs"] by simp
  qed
qed

lemma slotted_chain_plain:
  "all_derived v \<Longrightarrow> CHR ''#'' \<notin> set slot \<Longrightarrow>
   \<forall>x\<in>set (slotted_chain slot v). CHR ''#'' \<notin> set x"
  by (induction slot v rule: slotted_chain.induct)
     (auto simp: derived_def split: option.splits)

text \<open>
  The strings on which the parser does recover the whole ancestor chain, in order,
  carry one more segment between an id and its parent.
\<close>

lemma parse_slotted_chain:
  "all_derived v \<Longrightarrow> CHR ''#'' \<notin> set slot \<Longrightarrow>
   parseComponentId (join_str ''##'' (slotted_chain slot v)) = Some v"
proof (induction slot v rule: slotted_chain.induct)
  case (1 slot a n p i par)
  let ?v = "ComponentId a n p i par"
  from 1(2) obtain x where x: "i = Some x" and d: "derived ?v"
    by (auto simp: derived_def split: option.splits)
  have plain: "\<forall>s\<in>set (slotted_chain slot ?v). CHR ''#'' \<notin> set s"
    using slotted_chain_plain[OF 1(2) 1(3)] .
  have sp: "split_str ''##'' (join_str ''##'' (slotted_chain slot ?v)) = slotted_chain slot ?v"
    using split_join_plain[OF _ plain] by simp
  have ne: "join_str ''##'' (slotted_chain slot ?v) \<noteq> []"
    using sp by (cases "join_str ''##'' (slotted_chain slot ?v)") (auto simp: x)
  have au: "a = hd (split_str ''/'' p)" and nm: "n = nth_opt (split_str ''/'' p) 2"
    using d by (auto simp: derived_def)
  show ?case
  proof (cases par)
    case None
    then show ?thesis
      using parse_nonempty[OF ne] sp x au nm by (simp add: nth_opt_def parse_empty)
  next
    case (Some q)
    have "parseComponentId (join_str ''##'' (slotted_chain slot q)) = Some q"
      using 1(1)[OF Some] 1(2) 1(3) Some by simp
    then show ?thesis
      using parse_nonempty[OF ne] sp x au nm Some by (simp add: nth_opt_def)
  qed
qed

text \<open>
  An id without a parent is read back as it was written.
\<close>

lemma parse_serialize_root:
  assumes "derived v" and "parent v = None"
  shows "parseComponentId (serializeComponentId v) = Some v"
proof -
  from assms(1) obtain i where i: "id' v = Some i" and hi: "CHR ''#'' \<notin> set i"
    and hp: "CHR ''#'' \<notin> set (path v)"
    and au: "author v = hd (split_str ''/'' (path v))"
    and nm: "name v = nth_opt (split_str ''/'' (path v)) 2"
    by (auto simp: derived_def split: option.splits)
  have ne: "serializeComponentId v \<noteq> []"
    using serialize_length[of v] by auto
  have sp: "split_str ''##'' (serializeComponentId v) = [path v, i]"
    using serialize_root[OF assms(2) i] split_str_append[OF hp, of i] split_str_plain[OF hi]
    by simp
  have "parseComponentId (serializeComponentId v) =
          Some (ComponentId (author v) (name v) (path v) (Some i) None)"
    using parse_nonempty[OF ne] sp au nm by (simp add: nth_opt_def parse_empty)
  moreover have "ComponentId (author v) (name v) (path v) (Some i) None = v"
    using assms(2) i by (cases v) simp
  ultimately show ?thesis by simp
qed


text \<open>
  Claim C3 says that \<open>parse\<close> returns null for every malformed input string.  The
  string \<open>x\<close> has no delimiter and no instance id, and it is the wire form of no
  ComponentId (\<open>no_id_serializes_to_x\<close>); \<open>parseComponentId\<close> returns an object for
  it, with \<open>id\<close> and \<open>name\<close> undefined.
\<close>

theorem parse_malformed_counterexample:
  "parseComponentId ''x'' = Some (ComponentId ''x'' None ''x'' None None)"
  by code_simp

text \<open>
  Claim C3, amended: \<open>parseComponentId\<close> has type string to ComponentId or null, and
  it returns null exactly for the empty string; every other string, well-formed or
  not, yields an object.
\<close>

theorem parse_null_iff_empty: "parseComponentId s = None \<longleftrightarrow> s = []"
  by (cases "s = []") (simp_all add: parse_empty parse_nonempty)

theorem parse_null_iff_empty_witness:
  "parseComponentId [] = None \<and> parseComponentId ''##'' \<noteq> None"
  using parse_null_iff_empty[of "[]"] parse_null_iff_empty[of "''##''"] by simp

section \<open>Properties of the wire messages\<close>

text \<open>
  Claim C4 says that every \<open>component.callbackInvocation\<close> message carries exactly
  the fields targetId, method, args, requestId and originator, besides the literal
  type.  The declaration of the common package has no \<open>originator\<close>; it declares
  \<open>containerId\<close> in its place.
\<close>

theorem invocation_originator_counterexample:
  "''originator'' \<notin> property_names common_ComponentCallbackInvocation \<and>
   ''containerId'' \<in> property_names common_ComponentCallbackInvocation"
  by (simp add: property_names_def common_ComponentCallbackInvocation_def)

text \<open>
  Claim C4, amended: the declaration of \<open>ComponentCallbackInvocation\<close> in the container
  package has exactly the properties targetId, method, args, requestId, originator and
  type; the declaration in the common package has exactly targetId, method, args,
  requestId, containerId and type; in both, type is the literal
  \<open>component.callbackInvocation\<close>.
\<close>

theorem invocation_property_names:
  "property_names container_ComponentCallbackInvocation =
     {''targetId'', ''method'', ''args'', ''requestId'', ''originator'', ''type''} \<and>
   property_names common_ComponentCallbackInvocation =
     {''targetId'', ''method'', ''args'', ''requestId'', ''containerId'', ''type''} \<and>
   map_of container_ComponentCallbackInvocation ''type'' =
     Some (TLiteral ComponentCallbackInvocationType) \<and>
   map_of common_ComponentCallbackInvocation ''type'' =
     Some (TLiteral ComponentCallbackInvocationType) \<and>
   distinct (map fst container_ComponentCallbackInvocation) \<and>
   distinct (map fst common_ComponentCallbackInvocation) \<and>
   EventType_literal ComponentCallbackInvocationType = ''component.callbackInvocation''"
  by (auto simp: property_names_def container_ComponentCallbackInvocation_def
        common_ComponentCallbackInvocation_def)

text \<open>
  Claim C7: a dom-callback message is an application-to-container payload and never a
  container-to-application payload; handling it calls a handler of the DOM namespace
  only, whatever the component-level callbacks are, and posts no message (it is not
  routed on to another container).
\<close>

theorem domCallback_application_only:
  "(payload_type m = ComponentDomCallbackType \<longrightarrow>
      is_ApplicationPayload m \<and> \<not> is_ContainerPayload m) \<and>
   (is_ContainerPayload m \<longrightarrow> payload_type m \<noteq> ComponentDomCallbackType) \<and>
   snd (handle_domCallback reg m) = [] \<and>
   handle_domCallback (reg\<lparr>componentCallbacks := other\<rparr>) m = handle_domCallback reg m"
  by (cases m) (auto split: option.splits)

theorem domCallback_application_only_witness:
  "payload_type (DomCallback [''x''] None ''onClick''
       :: (string list, unit, unit, unit, unit) MessagePayload) = ComponentDomCallbackType \<and>
   is_ApplicationPayload (DomCallback [''x''] None ''onClick''
       :: (string list, unit, unit, unit, unit) MessagePayload) \<and>
   is_ContainerPayload (ComponentCallbackResponse ''c'' ''r1'' ''{}'' ''t''
       :: (string list, unit, unit, unit, unit) MessagePayload) \<and>
   payload_type (ComponentCallbackResponse ''c'' ''r1'' ''{}'' ''t''
       :: (string list, unit, unit, unit, unit) MessagePayload) = ComponentCallbackResponseType \<and>
   handle_domCallback
     \<lparr>domCallbacks = [''onClick'' \<mapsto> length], componentCallbacks = [''onClick'' \<mapsto> (\<lambda>_. 0)]\<rparr>
     (DomCallback [''x''] None ''onClick'' :: (string list, unit, unit, unit, unit) MessagePayload)
     = (Some 1, [])"
  using domCallback_application_only[of
      "DomCallback [''x''] None ''onClick'' :: (string list, unit, unit, unit, unit) MessagePayload"
      "\<lparr>domCallbacks = [''onClick'' \<mapsto> length], componentCallbacks = Map.empty\<rparr>"
      "[''onClick'' \<mapsto> (\<lambda>_. 0)]"]
    domCallback_application_only[of
      "ComponentCallbackResponse ''c'' ''r1'' ''{}'' ''t''
         :: (string list, unit, unit, unit, unit) MessagePayload"
      "\<lparr>domCallbacks = [''onClick'' \<mapsto> length], componentCallbacks = Map.empty\<rparr>"
      "[''onClick'' \<mapsto> (\<lambda>_. 0)]"]
  by simp

section \<open>Properties of the request correlator\<close>

lemma map_of_delete_same: "map_of (AList.delete k al) k = None"
  by (simp add: AList.delete_conv')

lemma handle_unknown:
  "map_of (requests ctx) rid = None \<Longrightarrow> handle_callbackResponse decode ctx rid res = ctx"
  by (simp add: handle_callbackResponse_def)

lemma handle_removes:
  "map_of (requests (handle_callbackResponse decode ctx rid res)) rid = None"
  by (cases "map_of (requests ctx) rid"; cases "decode res")
     (auto simp: handle_callbackResponse_def map_of_delete_same split: option.splits)

lemma handle_calls_length:
  "length (calls (handle_callbackResponse decode ctx rid res)) =
     length (calls ctx) + (if map_of (requests ctx) rid = None then 0 else 1)"
  by (cases "map_of (requests ctx) rid"; cases "decode res")
     (auto simp: handle_callbackResponse_def split: option.splits)

text \<open>
  Claim C1: on every receipt of a callback-response the pending entry of its
  \<open>requestId\<close> is gone afterwards; a response whose \<open>requestId\<close> has no pending entry
  (unknown, already settled, or of an unmounted component) leaves the context as it
  was, so a duplicate of a response changes nothing; each receipt makes one call to a
  resolver or rejecter when the entry was pending and none otherwise.
\<close>

theorem callbackResponse_removed_once:
  "map_of (requests (handle_callbackResponse decode ctx rid res)) rid = None \<and>
   (map_of (requests ctx) rid = None \<longrightarrow> handle_callbackResponse decode ctx rid res = ctx) \<and>
   handle_callbackResponse decode (handle_callbackResponse decode ctx rid res) rid res' =
     handle_callbackResponse decode ctx rid res \<and>
   length (calls (handle_callbackResponse decode ctx rid res)) =
     length (calls ctx) + (if map_of (requests ctx) rid = None then 0 else 1) \<and>
   handle_callbackResponse decode (unmount reason ctx) rid res = unmount reason ctx"
  using handle_removes[of decode ctx rid res] handle_calls_length[of decode ctx rid res]
  by (simp add: handle_unknown unmount_def)

theorem callbackResponse_removed_once_witness:
  "map_of (requests \<lparr>requests = [(''r1'', \<lparr>promise = 0, rejecter = 0, resolver = 0\<rparr>)],
                      calls = ([] :: (nat \<times> string settle) list)\<rparr>) ''r2'' = None \<and>
   handle_callbackResponse (\<lambda>s. (s, None))
     \<lparr>requests = [(''r1'', \<lparr>promise = 0, rejecter = 0, resolver = 0\<rparr>)],
      calls = ([] :: (nat \<times> string settle) list)\<rparr> ''r2'' ''late'' =
     \<lparr>requests = [(''r1'', \<lparr>promise = 0, rejecter = 0, resolver = 0\<rparr>)], calls = []\<rparr>"
  using callbackResponse_removed_once[of "\<lambda>s. (s, None)"
      "\<lparr>requests = [(''r1'', \<lparr>promise = 0, rejecter = 0, resolver = 0\<rparr>)],
        calls = ([] :: (nat \<times> string settle) list)\<rparr>" "''r2''" "''late''"]
  by simp

text \<open>
  Claim C5: the \<open>result\<close> of a callback-response decodes to a pair of a value and an
  optional error; for a pending request, a present error makes the one call to the
  entry's rejecter, with an error rebuilt from it, and an absent error makes the one
  call to the entry's resolver, with the value.
\<close>

theorem callbackResponse_settles:
  assumes "map_of (requests ctx) rid = Some request"
  shows "(\<forall>v e. decode res = (v, Some e) \<longrightarrow>
            calls (handle_callbackResponse decode ctx rid res) =
              calls ctx @ [(rejecter request, Reject (Error e))]) \<and>
         (\<forall>v. decode res = (v, None) \<longrightarrow>
            calls (handle_callbackResponse decode ctx rid res) =
              calls ctx @ [(resolver request, Resolve v)])"
  using assms by (simp add: handle_callbackResponse_def)

theorem callbackResponse_settles_witness:
  "calls (handle_callbackResponse (\<lambda>s. (''v'', if s = [] then None else Some s))
     \<lparr>requests = [(''r1'', \<lparr>promise = 7, rejecter = 7, resolver = 7\<rparr>)],
      calls = ([] :: (nat \<times> string settle) list)\<rparr> ''r1'' ''boom'')
     = [(7, Reject (Error ''boom''))] \<and>
   calls (handle_callbackResponse (\<lambda>s. (''v'', if s = [] then None else Some s))
     \<lparr>requests = [(''r1'', \<lparr>promise = 7, rejecter = 7, resolver = 7\<rparr>)],
      calls = ([] :: (nat \<times> string settle) list)\<rparr> ''r1'' [])
     = [(7, Resolve ''v'')]"
  using callbackResponse_settles[of
      "\<lparr>requests = [(''r1'', \<lparr>promise = 7, rejecter = 7, resolver = 7\<rparr>)],
        calls = ([] :: (nat \<times> string settle) list)\<rparr>" "''r1''"
      "\<lparr>promise = 7, rejecter = 7, resolver = 7\<rparr>"
      "\<lambda>s. (''v'', if s = [] then None else Some s)" "''boom''"]
    callbackResponse_settles[of
      "\<lparr>requests = [(''r1'', \<lparr>promise = 7, rejecter = 7, resolver = 7\<rparr>)],
        calls = ([] :: (nat \<times> string settle) list)\<rparr>" "''r1''"
      "\<lparr>promise = 7, rejecter = 7, resolver = 7\<rparr>"
      "\<lambda>s. (''v'', if s = [] then None else Some s)" "[]"]
  by simp

section \<open>Properties of useComponents\<close>

lemma plus_one_or_zero_values:
  "- (2 ^ 53) \<le> n \<and> n < 2 ^ 53 \<Longrightarrow>
     plus_one_or_zero (Primitive (JSNumber (Integer n))) =
       Inr (Primitive (JSNumber (Integer (n + 1))))"
  "plus_one_or_zero (Primitive JSUndefined) = Inr (Primitive (JSNumber (Integer 0)))"
  "plus_one_or_zero (Primitive (JSNumber NaN)) = Inr (Primitive (JSNumber (Integer 0)))"
  "plus_one_or_zero (Primitive JSNull) = Inr (Primitive (JSNumber (Integer 1)))"
  "plus_one_or_zero (Primitive (JSBoolean b)) =
     Inr (Primitive (JSNumber (Integer (if b then 2 else 1))))"
  "plus_one_or_zero (Primitive (JSString s)) = Inr (Primitive (JSString (s @ ''1'')))"
  "plus_one_or_zero (Primitive (JSBigInt i)) = Inl TypeError"
  "plus_one_or_zero (Primitive JSSymbol) = Inl TypeError"
  "plus_one_or_zero (Primitive (JSNumber PosInfinity)) = Inr (Primitive (JSNumber PosInfinity))"
  "plus_one_or_zero (Primitive (JSNumber NegInfinity)) = Inr (Primitive (JSNumber NegInfinity))"
  "plus_one_or_zero (JSObject (Inl e)) = Inl e"
  "plus_one_or_zero (JSObject (Inr p)) = plus_one_or_zero (Primitive p)"
  by (auto simp: plus_one_or_zero_def double_plus_one_def)

lemma plus_one_or_zero_rounded:
  "(2 ^ 53 \<le> n \<and> n < 2 ^ 54) \<or> (- (2 ^ 54) < n \<and> n < - (2 ^ 53)) \<Longrightarrow>
     plus_one_or_zero (Primitive (JSNumber (Integer n))) =
       Inr (Primitive (JSNumber (Integer (if n mod 4 = 0 then n else n + 2))))"
  "2 ^ 54 \<le> n \<or> n \<le> - (2 ^ 54) \<Longrightarrow>
     plus_one_or_zero (Primitive (JSNumber (Integer n))) = Inr (Primitive (JSNumber (Integer n)))"
  by (auto simp: plus_one_or_zero_def double_plus_one_def)

text \<open>
  Claim C8 says that \<open>componentRendered\<close> sets \<open>renderCount\<close> to 0 whenever the id
  has no prior numeric \<open>renderCount\<close>.  A prior \<open>renderCount\<close> of \<open>null\<close> is not
  numeric, and the new count is 1; a prior \<open>renderCount\<close> of the string \<open>5\<close> is not
  numeric, and the new count is the string \<open>51\<close>.
\<close>

theorem renderCount_non_numeric_counterexample:
  "componentRendered ''a/B''
     \<lparr>components = [''a/B'' \<mapsto> \<lparr>props = Map.empty :: string \<rightharpoonup> unit,
                                  renderCount = Primitive JSNull\<rparr>],
      isValidRootComponentPath = True, error = None, rootComponentSource = None\<rparr> =
   Inr \<lparr>components = [''a/B'' \<mapsto> \<lparr>props = Map.empty,
                                      renderCount = Primitive (JSNumber (Integer 1))\<rparr>],
        isValidRootComponentPath = True, error = None, rootComponentSource = None\<rparr> \<and>
   componentRendered ''a/B''
     \<lparr>components = [''a/B'' \<mapsto> \<lparr>props = Map.empty :: string \<rightharpoonup> unit,
                                  renderCount = Primitive (JSString ''5'')\<rparr>],
      isValidRootComponentPath = True, error = None, rootComponentSource = None\<rparr> =
   Inr \<lparr>components = [''a/B'' \<mapsto> \<lparr>props = Map.empty,
                                      renderCount = Primitive (JSString ''51'')\<rparr>],
        isValidRootComponentPath = True, error = None, rootComponentSource = None\<rparr>"
  by (simp add: componentRendered_def getComponentRenderCount_def plus_one_or_zero_def
        double_plus_one_def spread_props_def)

text \<open>
  Claim C8, amended.  \<open>addComponent\<close> stores under the id an entry with the properties
  of the entry stored before, overridden by those of the given component, and with
  \<open>renderCount\<close> 1 whatever count was stored before; every other entry and the rest
  of the state stay as they were.  \<open>componentRendered\<close> stores under the id the entry
  stored before (an empty one if there was none) with \<open>renderCount\<close> set to the value
  of \<^verbatim>\<open>renderCount + 1 || 0\<close>, every other entry and the rest of the state as they
  were; when that expression throws, it throws and stores nothing.  The value is the
  previous count plus one for an integer count from \<open>-2^53\<close> to \<open>2^53 - 1\<close>; it is
  0 when the entry or its \<open>renderCount\<close> is missing or \<open>undefined\<close> and when the
  count is \<open>NaN\<close>; it is 1 for \<open>null\<close> and \<open>false\<close>, 2 for \<open>true\<close>, and the string
  followed by \<open>1\<close> for a string; a bigint and a symbol make the expression throw a
  TypeError; an object counts as the primitive it converts to, and throws what its
  conversion throws.  Outside that range the sum is the nearest double: an infinite
  count stays, a count of magnitude \<open>2^54\<close> or more stays, and an (even) count of
  magnitude between \<open>2^53\<close> and \<open>2^54\<close> stays if it is a multiple of 4 and grows
  by 2 if not; so \<open>2^53\<close> stays \<open>2^53\<close>.
\<close>

theorem renderCount_rules:
  "components (addComponent cid c st) cid =
     Some \<lparr>props = spread_props (components st cid) ++ props c,
           renderCount = Primitive (JSNumber (Integer 1))\<rparr> \<and>
   (\<forall>k. k \<noteq> cid \<longrightarrow> components (addComponent cid c st) k = components st k) \<and>
   addComponent cid c st = st\<lparr>components := components (addComponent cid c st)\<rparr> \<and>
   (\<forall>r. plus_one_or_zero (getComponentRenderCount st cid) = Inr r \<longrightarrow>
      (\<exists>st'. componentRendered cid st = Inr st' \<and>
         components st' cid =
           Some \<lparr>props = spread_props (components st cid), renderCount = r\<rparr> \<and>
         (\<forall>k. k \<noteq> cid \<longrightarrow> components st' k = components st k) \<and>
         st' = st\<lparr>components := components st'\<rparr>)) \<and>
   (\<forall>e. plus_one_or_zero (getComponentRenderCount st cid) = Inl e \<longrightarrow>
      componentRendered cid st = Inl e) \<and>
   (components st cid = None \<longrightarrow> getComponentRenderCount st cid = Primitive JSUndefined) \<and>
   (\<forall>entry. components st cid = Some entry \<longrightarrow>
      getComponentRenderCount st cid = renderCount entry) \<and>
   (\<forall>n. - (2 ^ 53) \<le> n \<and> n < 2 ^ 53 \<longrightarrow>
      plus_one_or_zero (Primitive (JSNumber (Integer n))) =
        Inr (Primitive (JSNumber (Integer (n + 1))))) \<and>
   plus_one_or_zero (Primitive JSUndefined) = Inr (Primitive (JSNumber (Integer 0))) \<and>
   plus_one_or_zero (Primitive (JSNumber NaN)) = Inr (Primitive (JSNumber (Integer 0))) \<and>
   plus_one_or_zero (Primitive JSNull) = Inr (Primitive (JSNumber (Integer 1))) \<and>
   plus_one_or_zero (Primitive (JSBoolean b)) =
     Inr (Primitive (JSNumber (Integer (if b then 2 else 1)))) \<and>
   plus_one_or_zero (Primitive (JSString s)) = Inr (Primitive (JSString (s @ ''1''))) \<and>
   plus_one_or_zero (Primitive (JSBigInt i)) = Inl TypeError \<and>
   plus_one_or_zero (Primitive JSSymbol) = Inl TypeError \<and>
   plus_one_or_zero (Primitive (JSNumber PosInfinity)) =
     Inr (Primitive (JSNumber PosInfinity)) \<and>
   plus_one_or_zero (Primitive (JSNumber NegInfinity)) =
     Inr (Primitive (JSNumber NegInfinity)) \<and>
   plus_one_or_zero (JSObject (Inl e)) = Inl e \<and>
   plus_one_or_zero (JSObject (Inr p)) = plus_one_or_zero (Primitive p) \<and>
   (\<forall>n. even n \<and> ((2 ^ 53 \<le> n \<and> n < 2 ^ 54) \<or> (- (2 ^ 54) < n \<and> n < - (2 ^ 53))) \<longrightarrow>
      plus_one_or_zero (Primitive (JSNumber (Integer n))) =
        Inr (Primitive (JSNumber (Integer (if n mod 4 = 0 then n else n + 2))))) \<and>
   (\<forall>n. n mod 4 = 0 \<and> (2 ^ 54 \<le> n \<or> n \<le> - (2 ^ 54)) \<longrightarrow>
      plus_one_or_zero (Primitive (JSNumber (Integer n))) =
        Inr (Primitive (JSNumber (Integer n))))"
proof -
  have add: "components (addComponent cid c st) cid =
     Some \<lparr>props = spread_props (components st cid) ++ props c,
           renderCount = Primitive (JSNumber (Integer 1))\<rparr> \<and>
   (\<forall>k. k \<noteq> cid \<longrightarrow> components (addComponent cid c st) k = components st k) \<and>
   addComponent cid c st = st\<lparr>components := components (addComponent cid c st)\<rparr>"
    by (simp add: addComponent_def)
  have rendered: "\<forall>r. plus_one_or_zero (getComponentRenderCount st cid) = Inr r \<longrightarrow>
      (\<exists>st'. componentRendered cid st = Inr st' \<and>
         components st' cid =
           Some \<lparr>props = spread_props (components st cid), renderCount = r\<rparr> \<and>
         (\<forall>k. k \<noteq> cid \<longrightarrow> components st' k = components st k) \<and>
         st' = st\<lparr>components := components st'\<rparr>)"
    by (simp add: componentRendered_def)
  have thrown: "\<forall>e. plus_one_or_zero (getComponentRenderCount st cid) = Inl e \<longrightarrow>
      componentRendered cid st = Inl e"
    by (simp add: componentRendered_def)
  have read: "(components st cid = None \<longrightarrow>
                 getComponentRenderCount st cid = Primitive JSUndefined) \<and>
   (\<forall>entry. components st cid = Some entry \<longrightarrow>
      getComponentRenderCount st cid = renderCount entry)"
    by (simp add: getComponentRenderCount_def)
  show ?thesis
    using add rendered thrown read plus_one_or_zero_values(1) plus_one_or_zero_rounded
    by (simp add: plus_one_or_zero_values(2-12))
qed

theorem renderCount_rules_witness:
  "componentRendered ''a/B''
     \<lparr>components = [''a/B'' \<mapsto> \<lparr>props = [''componentSource'' \<mapsto> ''src''],
                                  renderCount = Primitive (JSNumber (Integer 5))\<rparr>],
      isValidRootComponentPath = True, error = None, rootComponentSource = None\<rparr> =
   Inr \<lparr>components = [''a/B'' \<mapsto> \<lparr>props = [''componentSource'' \<mapsto> ''src''],
                                      renderCount = Primitive (JSNumber (Integer 6))\<rparr>],
        isValidRootComponentPath = True, error = None, rootComponentSource = None\<rparr> \<and>
   componentRendered ''a/C''
     \<lparr>components = [''a/B'' \<mapsto> \<lparr>props = [''componentSource'' \<mapsto> ''src''],
                                  renderCount = Primitive (JSNumber (Integer 5))\<rparr>],
      isValidRootComponentPath = True, error = None, rootComponentSource = None\<rparr> =
   Inr \<lparr>components = [''a/B'' \<mapsto> \<lparr>props = [''componentSource'' \<mapsto> ''src''],
                                      renderCount = Primitive (JSNumber (Integer 5))\<rparr>,
                       ''a/C'' \<mapsto> \<lparr>props = Map.empty,
                                      renderCount = Primitive (JSNumber (Integer 0))\<rparr>],
        isValidRootComponentPath = True, error = None, rootComponentSource = None\<rparr> \<and>
   addComponent ''a/B''
     \<lparr>props = [''componentId'' \<mapsto> ''a/B''], renderCount = Primitive (JSNumber (Integer 41))\<rparr>
     \<lparr>components = [''a/B'' \<mapsto> \<lparr>props = [''componentSource'' \<mapsto> ''src''],
                                  renderCount = Primitive (JSNumber (Integer 5))\<rparr>],
      isValidRootComponentPath = True, error = None, rootComponentSource = None\<rparr> =
   \<lparr>components = [''a/B'' \<mapsto> \<lparr>props = [''componentSource'' \<mapsto> ''src'',
                                          ''componentId'' \<mapsto> ''a/B''],
                                renderCount = Primitive (JSNumber (Integer 1))\<rparr>],
    isValidRootComponentPath = True, error = None, rootComponentSource = None\<rparr>"
  using renderCount_rules[of "''a/B''"
      "\<lparr>props = [''componentId'' \<mapsto> ''a/B''], renderCount = Primitive (JSNumber (Integer 41))\<rparr>"
      "\<lparr>components = [''a/B'' \<mapsto> \<lparr>props = [''componentSource'' \<mapsto> ''src''],
                                  renderCount = Primitive (JSNumber (Integer 5))\<rparr>],
      isValidRootComponentPath = True, error = None, rootComponentSource = None\<rparr>"
      True "[]" 0 TypeError JSNull]
    renderCount_rules[of "''a/C''"
      "\<lparr>props = [''componentId'' \<mapsto> ''a/B''], renderCount = Primitive (JSNumber (Integer 41))\<rparr>"
      "\<lparr>components = [''a/B'' \<mapsto> \<lparr>props = [''componentSource'' \<mapsto> ''src''],
                                  renderCount = Primitive (JSNumber (Integer 5))\<rparr>],
      isValidRootComponentPath = True, error = None, rootComponentSource = None\<rparr>"
      True "[]" 0 TypeError JSNull]
  by (simp add: componentRendered_def getComponentRenderCount_def plus_one_or_zero_def
        double_plus_one_def spread_props_def addComponent_def fun_upd_twist)

text \<open>
  Claim C6 says that after a response of the compiler with an error, no automatic
  retry request is issued to the compiler.  With no error stored yet, the response
  stores one; \<open>error\<close> is in the dependency array of the compile effect, so the effect
  runs again and posts a second \<open>execute\<close> request for the root component, here the
  very component whose compilation failed.
\<close>

theorem compile_error_retry_counterexample:
  "loadError \<lparr>componentId = ''a.near/Root'', componentSource = [], containerStyles = None,
              loadError = Some (Error ''boom''), importedModules = ()\<rparr> = Some (Error ''boom'') \<and>
   snd (compiler_response
          \<lparr>compiler = Some 0, rootComponentPath = ''a.near/Root'', bosLoaderUrl = None\<rparr>
          \<lparr>components = Map.empty, isValidRootComponentPath = True, error = None,
           rootComponentSource = None\<rparr>
          \<lparr>componentId = ''a.near/Root'', componentSource = [], containerStyles = None,
           loadError = Some (Error ''boom''), importedModules = ()\<rparr>
          \<lparr>components = Map.empty, isValidRootComponentPath = True, error = None,
           rootComponentSource = None\<rparr>)
     = [PostMessage_execute ''a.near/Root'']"
  by (simp add: onmessage_def compiler_response_def rerun_effect_def effect_deps_def
        compile_effect_def)

text \<open>
  Claim C6, amended: when the compiler responds with an error, the handler stores the
  error's message as the error state, adds no component entry and leaves every stored
  component as it was, and the handler itself posts nothing to the compiler.  When
  the stored error was already that message nothing else happens; when it was not, the
  compile effect runs once more and posts what it posts on any run: one \<open>execute\<close>
  request for the root component path, if the path is valid and a compiler is there.
\<close>

theorem compile_error_handled:
  assumes "loadError data = Some e"
  shows "error (fst (onmessage params captured data st)) = Some (message e) \<and>
         components (fst (onmessage params captured data st)) = components st \<and>
         snd (onmessage params captured data st) = [] \<and>
         fst (compiler_response params captured data st) =
           fst (onmessage params captured data st) \<and>
         snd (compiler_response params captured data st) =
           (if error st = Some (message e) then [] else compile_effect params st)"
  using assms
  by (simp add: onmessage_def compiler_response_def rerun_effect_def effect_deps_def
        compile_effect_def)

theorem compile_error_handled_witness:
  "error (fst (onmessage
          \<lparr>compiler = Some 0, rootComponentPath = ''a.near/Root'', bosLoaderUrl = None\<rparr>
          \<lparr>components = Map.empty, isValidRootComponentPath = True, error = None,
           rootComponentSource = None\<rparr>
          \<lparr>componentId = ''a.near/Child'', componentSource = [], containerStyles = None,
           loadError = Some (Error ''boom''), importedModules = ()\<rparr>
          \<lparr>components = Map.empty, isValidRootComponentPath = True, error = Some ''boom'',
           rootComponentSource = None\<rparr>)) = Some ''boom'' \<and>
   snd (compiler_response
          \<lparr>compiler = Some 0, rootComponentPath = ''a.near/Root'', bosLoaderUrl = None\<rparr>
          \<lparr>components = Map.empty, isValidRootComponentPath = True, error = None,
           rootComponentSource = None\<rparr>
          \<lparr>componentId = ''a.near/Child'', componentSource = [], containerStyles = None,
           loadError = Some (Error ''boom''), importedModules = ()\<rparr>
          \<lparr>components = Map.empty, isValidRootComponentPath = True, error = Some ''boom'',
           rootComponentSource = None\<rparr>) = []"
  using compile_error_handled[of
      "\<lparr>componentId = ''a.near/Child'', componentSource = [], containerStyles = None,
           loadError = Some (Error ''boom''), importedModules = ()\<rparr>" "Error ''boom''"
      "\<lparr>compiler = Some 0, rootComponentPath = ''a.near/Root'', bosLoaderUrl = None\<rparr>"
      "\<lparr>components = Map.empty, isValidRootComponentPath = True, error = None,
           rootComponentSource = None\<rparr>"
      "\<lparr>components = Map.empty, isValidRootComponentPath = True, error = Some ''boom'',
           rootComponentSource = None\<rparr>"]
  by simp

section \<open>Properties of SocialDb.get\<close>

lemma normalizedKeys_empty:
  "(case key params of None \<Rightarrow> True | Some k \<Rightarrow> k = []) \<Longrightarrow>
   (case keys params of None \<Rightarrow> True | Some ks \<Rightarrow> \<forall>k\<in>set ks. k = []) \<Longrightarrow>
   normalizedKeys params = []"
  by (auto simp: normalizedKeys_def filter_empty_conv split: option.splits)

lemma normalizedKeys_key:
  "key params = Some k \<Longrightarrow> k \<noteq> [] \<Longrightarrow> normalizedKeys params = [k]"
  by (simp add: normalizedKeys_def)

lemma rpcFetch_requests:
  "r \<in> set (snd (rpcFetch enc query cid b c d f m)) \<Longrightarrow> args_base64 r = enc d"
  by (auto simp: rpcFetch_def Let_def split: option.splits)

text \<open>
  Claim C9: a call of \<open>get\<close> with no non-empty \<open>key\<close> and no non-empty string in
  \<open>keys\<close> rejects with an Error, and no request goes to the provider; with a non-empty
  \<open>key\<close> the keys asked for are that key alone, whatever \<open>keys\<close> holds, and every
  request issued carries them.
\<close>

theorem get_requires_key:
  "((case key params of None \<Rightarrow> True | Some k \<Rightarrow> k = []) \<and>
    (case keys params of None \<Rightarrow> True | Some ks \<Rightarrow> \<forall>k\<in>set ks. k = []) \<longrightarrow>
      (\<exists>msg. SocialDb_get enc query cid params = (Inl (Error msg), []))) \<and>
   (\<forall>k. key params = Some k \<and> k \<noteq> [] \<longrightarrow>
      normalizedKeys params = [k] \<and>
      (\<forall>r\<in>set (snd (SocialDb_get enc query cid params)).
         args_base64 r = enc ([k], options params)))"
proof (intro conjI impI allI)
  assume "(case key params of None \<Rightarrow> True | Some k \<Rightarrow> k = []) \<and>
    (case keys params of None \<Rightarrow> True | Some ks \<Rightarrow> \<forall>k\<in>set ks. k = [])"
  then have "normalizedKeys params = []"
    using normalizedKeys_empty by blast
  then show "\<exists>msg. SocialDb_get enc query cid params = (Inl (Error msg), [])"
    by (simp add: SocialDb_get_def)
next
  fix k assume "key params = Some k \<and> k \<noteq> []"
  then show "normalizedKeys params = [k]"
    by (simp add: normalizedKeys_key)
next
  fix k assume k: "key params = Some k \<and> k \<noteq> []"
  then have nk: "normalizedKeys params = [k]"
    by (simp add: normalizedKeys_key)
  show "\<forall>r\<in>set (snd (SocialDb_get enc query cid params)).
          args_base64 r = enc ([k], options params)"
    using nk rpcFetch_requests[of _ enc query cid _ _ "([k], options params)"]
    by (auto simp: SocialDb_get_def Let_def split: if_splits)
qed

theorem get_requires_key_witness:
  "fst (SocialDb_get (\<lambda>(ks, _). concat ks) (\<lambda>_. Some ''{}'') ''social.near''
     \<lparr>blockId = None, key = Some [], keys = Some [[], []], finality = None, options = ()\<rparr>)
     = Inl (Error ''Must pass a valid `key` or `keys` parameter with non empty string(s).'') \<and>
   snd (SocialDb_get (\<lambda>(ks, _). concat ks) (\<lambda>_. Some ''{}'') ''social.near''
     \<lparr>blockId = None, key = Some [], keys = Some [[], []], finality = None, options = ()\<rparr>)
     = [] \<and>
   normalizedKeys
     \<lparr>blockId = None, key = Some ''a.near/profile/*'', keys = Some [''b.near/**''],
      finality = None, options = ()\<rparr> = [''a.near/profile/*''] \<and>
   map args_base64 (snd (SocialDb_get (\<lambda>(ks, _). concat ks) (\<lambda>_. Some ''{}'') ''social.near''
     \<lparr>blockId = None, key = Some ''a.near/profile/*'', keys = Some [''b.near/**''],
      finality = None, options = ()\<rparr>)) = [''a.near/profile/*'']"
  using get_requires_key[of
      "\<lparr>blockId = None, key = Some [], keys = Some [[], []], finality = None, options = ()\<rparr>"
      "\<lambda>(ks, _). concat ks" "\<lambda>_. Some ''{}''" "''social.near''"]
    get_requires_key[of
      "\<lparr>blockId = None, key = Some ''a.near/profile/*'', keys = Some [''b.near/**''],
        finality = None, options = ()\<rparr>"
      "\<lambda>(ks, _). concat ks" "\<lambda>_. Some ''{}''" "''social.near''"]
  by (simp add: SocialDb_get_def rpcFetch_def normalizedKeys_def)

section \<open>Properties of fetchLocalComponents\<close>

lemma code_to_component_props:
  "code_to_component e ''code'' = None"
  "e ''code'' = Some c \<Longrightarrow> code_to_component e ''component'' = Some (c @ [CHR 0x0A])"
  "p \<noteq> ''code'' \<Longrightarrow> p \<noteq> ''component'' \<Longrightarrow> code_to_component e p = e p"
  by (simp_all add: code_to_component_def)

text \<open>
  Claim C10: when the components object is fetched, the local components handed to
  the sandbox are its entries, in order and under the same keys, each with \<open>code\<close>
  deleted, with \<open>component\<close> equal to the original code followed by a newline, and
  with its other properties as they were; when the fetch fails, or the data has no
  components, the local components are the empty object.
\<close>

theorem fetchLocalComponents_transforms:
  "(fetch url = FetchedJson (Some cs) \<longrightarrow>
      (\<exists>cs'. localComponents (fetchLocalComponents fetch url st) = Some cs' \<and>
         map fst cs' = map fst cs \<and>
         list_all2 (\<lambda>(k, e) (k', e').
             e' ''code'' = None \<and>
             (\<forall>c. e ''code'' = Some c \<longrightarrow> e' ''component'' = Some (c @ [CHR 0x0A])) \<and>
             (\<forall>p. p \<noteq> ''code'' \<and> p \<noteq> ''component'' \<longrightarrow> e' p = e p)) cs cs')) \<and>
   (fetch url = FetchRejected \<or> fetch url = FetchedJson None \<longrightarrow>
      localComponents (fetchLocalComponents fetch url st) = Some [])"
proof -
  have "list_all2 (\<lambda>(k, e) (k', e').
             e' ''code'' = None \<and>
             (\<forall>c. e ''code'' = Some c \<longrightarrow> e' ''component'' = Some (c @ [CHR 0x0A])) \<and>
             (\<forall>p. p \<noteq> ''code'' \<and> p \<noteq> ''component'' \<longrightarrow> e' p = e p)) cs
          (map (\<lambda>(key, entry). (key, code_to_component entry)) cs)"
    by (induction cs) (auto simp: code_to_component_props)
  moreover have "map fst (map (\<lambda>(key, entry). (key, code_to_component entry)) cs) = map fst cs"
    by (induction cs) auto
  ultimately show ?thesis
    by (auto simp: fetchLocalComponents_def)
qed

theorem fetchLocalComponents_transforms_witness:
  "map (\<lambda>(k, e). (k, e ''code'', e ''component'', e ''other''))
     (case localComponents (fetchLocalComponents
              (\<lambda>_. FetchedJson (Some [(''a.near/Hello'', [''code'' \<mapsto> ''x'', ''other'' \<mapsto> ''y''])]))
              ''http://localhost:3030'' \<lparr>localComponents = None, localFetchStatus = None\<rparr>) of
        None \<Rightarrow> [] | Some cs \<Rightarrow> cs)
     = [(''a.near/Hello'', None, Some [CHR ''x'', CHR 0x0A], Some ''y'')] \<and>
   localComponents (fetchLocalComponents (\<lambda>_. FetchRejected) ''http://localhost:3030''
       \<lparr>localComponents = None, localFetchStatus = None\<rparr>) = Some []"
  using fetchLocalComponents_transforms[of
      "\<lambda>_. FetchedJson (Some [(''a.near/Hello'', [''code'' \<mapsto> ''x'', ''other'' \<mapsto> ''y''])])"
      "''http://localhost:3030''" "[(''a.near/Hello'', [''code'' \<mapsto> ''x'', ''other'' \<mapsto> ''y''])]"
      "\<lparr>localComponents = None, localFetchStatus = None\<rparr>"]
    fetchLocalComponents_transforms[of "\<lambda>_. FetchRejected" "''http://localhost:3030''" "[]"
      "\<lparr>localComponents = None, localFetchStatus = None\<rparr>"]
  by (simp add: fetchLocalComponents_def code_to_component_def)

end
